theory Spec2Isabelle
  imports Main
begin

section \<open>JavaScript strings\<close>

text \<open>
  Strings are \<^typ>\<open>string\<close>. The catalog's type names, the SQL keywords and the
  anchors of a filter are ASCII, so \<open>toLowerCase\<close> and \<open>toUpperCase\<close> are modelled on
  the ASCII letters and leave every other character alone.
\<close>

definition lower_char :: "char \<Rightarrow> char" where
  "lower_char c =
     (case map_of (zip ''ABCDEFGHIJKLMNOPQRSTUVWXYZ'' ''abcdefghijklmnopqrstuvwxyz'') c of
        None \<Rightarrow> c
      | Some d \<Rightarrow> d)"

definition upper_char :: "char \<Rightarrow> char" where
  "upper_char c =
     (case map_of (zip ''abcdefghijklmnopqrstuvwxyz'' ''ABCDEFGHIJKLMNOPQRSTUVWXYZ'') c of
        None \<Rightarrow> c
      | Some d \<Rightarrow> d)"

definition toLowerCase :: "string \<Rightarrow> string" where
  "toLowerCase s = map lower_char s"

definition toUpperCase :: "string \<Rightarrow> string" where
  "toUpperCase s = map upper_char s"

text \<open>\<open>s.startsWith(p)\<close> and \<open>s.includes(p)\<close>.\<close>

fun startsWith :: "string \<Rightarrow> string \<Rightarrow> bool" where
  "startsWith s [] = True"
| "startsWith [] (p # ps) = False"
| "startsWith (c # cs) (p # ps) = (c = p \<and> startsWith cs ps)"

fun includes_str :: "string \<Rightarrow> string \<Rightarrow> bool" where
  "includes_str [] p = (p = [])"
| "includes_str (c # cs) p = (startsWith (c # cs) p \<or> includes_str cs p)"

text \<open>\<open>xs.join(sep)\<close> on an array of strings.\<close>

fun join :: "string \<Rightarrow> string list \<Rightarrow> string" where
  "join sep [] = []"
| "join sep [x] = x"
| "join sep (x # y # ys) = x @ sep @ join sep (y # ys)"

text \<open>
  \<open>s.split(sep)\<close> for a one-character separator: \<open>split_acc\<close> carries the piece read
  so far, reversed.
\<close>

fun split_acc :: "char \<Rightarrow> string \<Rightarrow> string \<Rightarrow> string list" where
  "split_acc sep acc [] = [rev acc]"
| "split_acc sep acc (c # cs) =
     (if c = sep then rev acc # split_acc sep [] cs else split_acc sep (c # acc) cs)"

definition split :: "char \<Rightarrow> string \<Rightarrow> string list" where
  "split sep s = split_acc sep [] s"

section \<open>Catalog metadata\<close>

text \<open>
  A row of \<open>INFORMATION_SCHEMA.COLUMNS\<close> as \<open>getColumns\<close> selects it.
  \<open>CHARACTER_MAXIMUM_LENGTH\<close> is \<open>null\<close> for a type without a length: \<open>None\<close>.
\<close>

record column =
  COLUMN_NAME :: string
  DATA_TYPE :: string
  IS_NULLABLE :: string
  CHARACTER_MAXIMUM_LENGTH :: "int option"

section \<open>Type mapper\<close>

text \<open>The parameter types of the driver that the mapper names.\<close>

datatype nvarchar_length = LenMAX | Len int

datatype mssql_type =
    NVarChar nvarchar_length
  | SqlInt
  | SqlBigInt
  | SqlBit
  | SqlDecimal nat nat
  | SqlFloat
  | SqlDateTime

text \<open>
  \<open>mapSqlTypeToMssqlType(col)\<close>, the same text in \<open>src/generator.js\<close> and in the
  trigger-aware generator. \<open>len && len > 0\<close> is false for \<open>null\<close> and for \<open>0\<close>.
\<close>

definition mapSqlTypeToMssqlType :: "column \<Rightarrow> mssql_type" where
  "mapSqlTypeToMssqlType col =
     (let t = toLowerCase (DATA_TYPE col) in
      if includes_str t ''char'' \<or> t = ''text'' \<or> t = ''ntext'' then
        (case CHARACTER_MAXIMUM_LENGTH col of
           None \<Rightarrow> NVarChar LenMAX
         | Some n \<Rightarrow> if n > 0 then NVarChar (Len n) else NVarChar LenMAX)
      else if includes_str t ''int'' then SqlInt
      else if t = ''bigint'' then SqlBigInt
      else if t = ''bit'' then SqlBit
      else if includes_str t ''decimal'' \<or> t = ''numeric'' then SqlDecimal 18 4
      else if includes_str t ''float'' \<or> t = ''real'' then SqlFloat
      else if includes_str t ''date'' \<or> includes_str t ''time'' then SqlDateTime
      else if t = ''uniqueidentifier'' then NVarChar (Len 50)
      else NVarChar LenMAX)"

text \<open>The schema descriptor of the document: \<open>{ type, format? }\<close>.\<close>

record openapi_type =
  oa_type :: string
  oa_format :: "string option"

definition toOpenApiType :: "column \<Rightarrow> openapi_type" where
  "toOpenApiType col =
     (let t = toLowerCase (DATA_TYPE col) in
      if includes_str t ''int'' then \<lparr>oa_type = ''integer'', oa_format = None\<rparr>
      else if t = ''bigint'' then \<lparr>oa_type = ''integer'', oa_format = Some ''int64''\<rparr>
      else if t = ''bit'' then \<lparr>oa_type = ''boolean'', oa_format = None\<rparr>
      else if includes_str t ''float'' \<or> t = ''real'' \<or> includes_str t ''decimal'' \<or> t = ''numeric''
        then \<lparr>oa_type = ''number'', oa_format = None\<rparr>
      else if includes_str t ''date'' \<or> includes_str t ''time''
        then \<lparr>oa_type = ''string'', oa_format = Some ''date-time''\<rparr>
      else \<lparr>oa_type = ''string'', oa_format = None\<rparr>)"

section \<open>Requests, parameters and the driver\<close>

text \<open>
  A value read from a request body: a JSON value, or a member that the body inherits
  from \<open>Object.prototype\<close> (a function, or the prototype itself for \<open>__proto__\<close>), named
  by its property name.
\<close>

datatype jsval = JNull | JBool bool | JNum int | JStr string | JInherited string

text \<open>
  The parsed JSON body is an object: the list of its own properties, each name once.
\<close>

type_synonym jsobject = "(string \<times> jsval) list"

text \<open>
  \<open>req.body[name]\<close>: the own property if there is one, else the member of
  \<open>Object.prototype\<close> of that name if there is one, else \<open>undefined\<close> (\<open>None\<close>). A
  property whose value is \<open>null\<close> is present: \<open>null !== undefined\<close>.
\<close>

definition object_prototype :: "string list" where
  "object_prototype =
     [''constructor'', ''__defineGetter__'', ''__defineSetter__'', ''hasOwnProperty'',
      ''__lookupGetter__'', ''__lookupSetter__'', ''isPrototypeOf'', ''propertyIsEnumerable'',
      ''toString'', ''valueOf'', ''__proto__'', ''toLocaleString'']"

definition read_property :: "jsobject \<Rightarrow> string \<Rightarrow> jsval option" where
  "read_property obj n =
     (case map_of obj n of
        Some v \<Rightarrow> Some v
      | None \<Rightarrow> if n \<in> set object_prototype then Some (JInherited n) else None)"

text \<open>
  The parsed query string as the list handler reads it: the parameters of the request,
  every value a string (repeated and bracketed keys, which the query parser turns into
  arrays and objects, are left out of the model).
\<close>

type_synonym query = "(string \<times> string) list"

text \<open>\<open>request.input(name, type, value)\<close> adds one bound parameter.\<close>

type_synonym param = "string \<times> mssql_type \<times> jsval"

text \<open>
  The driver is a collaborator: \<open>request.query(sqlText)\<close> either throws (\<open>Inl\<close> the
  message) or returns the record sets of the batch, \<open>recordset\<close> being the first one.
\<close>

type_synonym row = "(string \<times> jsval) list"

type_synonym driver = "string \<Rightarrow> param list \<Rightarrow> string + row list list"

definition recordset :: "row list list \<Rightarrow> row list option" where
  "recordset rs = (case rs of [] \<Rightarrow> None | r # _ \<Rightarrow> Some r)"

text \<open>
  What a handler answers: the status and the body. \<open>NoBody\<close> stands for \<open>.end()\<close> and
  for \<open>res.json(undefined)\<close>.
\<close>

datatype body = Rows "row list" | Row row | Err string | NoBody

datatype response = Reply nat body

text \<open>A handler's outcome: its answer and the statements it sent to the driver.\<close>

type_synonym statement = "string \<times> param list"

type_synonym outcome = "response \<times> statement list"

section \<open>Object metadata\<close>

text \<open>
  The \<open>meta\<close> object that \<open>setupDynamicRoutes\<close> builds for a discovered object and
  that every handler of the object closes over (\<open>pool\<close> is the driver, passed to the
  handlers apart). \<open>src/generator.js\<close> builds it without \<open>hasTriggers\<close> and \<open>identity\<close>
  and its handlers read neither.
\<close>

record tableMeta =
  schema :: string
  table :: string
  columns :: "column list"
  pk :: "string list"
  isView :: bool
  hasTriggers :: bool
  identity :: "string option"

text \<open>A string is truthy when it is not empty; \<open>undefined\<close> and \<open>null\<close> are falsy.\<close>

definition truthy :: "string option \<Rightarrow> bool" where
  "truthy v = (case v of None \<Rightarrow> False | Some s \<Rightarrow> s \<noteq> [])"

text \<open>\<open>tableMeta.pk && tableMeta.pk[0]\<close>: an array is truthy, also when it is empty.\<close>

definition pk0 :: "tableMeta \<Rightarrow> string option" where
  "pk0 m = (case pk m of [] \<Rightarrow> None | k # _ \<Rightarrow> Some k)"

text \<open>
  \<open>tableMeta.pk[0]\<close> used as a property name or interpolated in a template: the text
  \<open>undefined\<close> when there is no key column.
\<close>

definition pk0_name :: "tableMeta \<Rightarrow> string" where
  "pk0_name m = (case pk0 m of None \<Rightarrow> ''undefined'' | Some k \<Rightarrow> k)"

definition columnNames :: "tableMeta \<Rightarrow> string list" where
  "columnNames m = map COLUMN_NAME (columns m)"

definition qName :: "string \<Rightarrow> string \<Rightarrow> string" where
  "qName s t = ''['' @ s @ ''].['' @ t @ '']''"

text \<open>The message of the \<open>TypeError\<close> for reading a property of \<open>undefined\<close>.\<close>

definition typeError :: "string \<Rightarrow> string" where
  "typeError member =
     ''Cannot read properties of undefined (reading '' @ [CHR 39] @ member @ [CHR 39] @ '')''"

section \<open>The list handler\<close>

text \<open>
  Step 1, the column filters: for each column in catalog order, a query value under
  the column's name adds one predicate and one bound parameter.
\<close>

definition predicate :: "string \<Rightarrow> string" where
  "predicate n = ''['' @ n @ ''] = @'' @ n"

fun list_filters :: "query \<Rightarrow> column list \<Rightarrow> string list \<times> param list" where
  "list_filters q [] = ([], [])"
| "list_filters q (col # cols) =
     (case map_of q (COLUMN_NAME col) of
        None \<Rightarrow> list_filters q cols
      | Some v \<Rightarrow>
          (predicate (COLUMN_NAME col) # fst (list_filters q cols),
           (COLUMN_NAME col, mapSqlTypeToMssqlType col, JStr v) # snd (list_filters q cols)))"

text \<open>
  \<open>parseInt(s, 10)\<close>: leading white space, an optional sign, then the longest run of
  decimal digits; \<open>NaN\<close> when there is no digit, and for \<open>undefined\<close>. The result is a
  Number: the double nearest to the integer read, ties to the even mantissa, and
  \<open>Infinity\<close> from \<open>2^1024 - 2^970\<close> on, the midpoint above the largest double. The
  handler keeps the result only if \<open>Number.isFinite\<close> accepts it, so \<open>None\<close> stands for
  \<open>NaN\<close>, \<open>Infinity\<close> and \<open>-Infinity\<close> alike.
\<close>

definition is_space :: "char \<Rightarrow> bool" where
  "is_space c = (c \<in> set [CHR '' '', CHR 0x09, CHR 0x0A, CHR 0x0B, CHR 0x0C, CHR 0x0D])"

definition digit_val :: "char \<Rightarrow> nat option" where
  "digit_val c = map_of (zip ''0123456789'' [0, 1, 2, 3, 4, 5, 6, 7, 8, 9]) c"

fun digits_val :: "nat \<Rightarrow> string \<Rightarrow> nat" where
  "digits_val acc [] = acc"
| "digits_val acc (c # cs) =
     (case digit_val c of None \<Rightarrow> acc | Some d \<Rightarrow> digits_val (10 * acc + d) cs)"

text \<open>The number of binary digits of a natural number.\<close>

fun bit_length :: "nat \<Rightarrow> nat" where
  "bit_length 0 = 0"
| "bit_length (Suc n) = Suc (bit_length (Suc n div 2))"

text \<open>
  The double nearest to a natural number, \<open>None\<close> for \<open>Infinity\<close>. Below \<open>2^53\<close> every
  integer is a double. Above, the \<open>e\<close> low bits beyond the 53 of the mantissa are
  rounded away: up when they are more than half, or exactly half with an odd mantissa.
\<close>

definition to_double :: "nat \<Rightarrow> nat option" where
  "to_double n =
     (if n < 2 ^ 53 then Some n
      else if 2 ^ 1024 - 2 ^ 970 \<le> n then None
      else
        (let e = bit_length n - 53;
             q = n div 2 ^ e;
             r = n mod 2 ^ e;
             h = 2 ^ (e - 1)
         in Some ((if h < r \<or> (r = h \<and> odd q) then q + 1 else q) * 2 ^ e)))"

definition unsigned_int :: "string \<Rightarrow> int option" where
  "unsigned_int s =
     (case s of
        [] \<Rightarrow> None
      | c # _ \<Rightarrow>
          (case digit_val c of
             None \<Rightarrow> None
           | Some _ \<Rightarrow> map_option int (to_double (digits_val 0 s))))"

definition parseInt :: "string option \<Rightarrow> int option" where
  "parseInt v =
     (case v of
        None \<Rightarrow> None
      | Some s \<Rightarrow>
          (case dropWhile is_space s of
             [] \<Rightarrow> None
           | c # cs \<Rightarrow>
               if c = CHR ''-'' then map_option uminus (unsigned_int cs)
               else if c = CHR ''+'' then unsigned_int cs
               else unsigned_int (c # cs)))"

text \<open>Step 2: \<open>limit\<close> defaults to \<open>-1\<close>, \<open>offset\<close> to \<open>0\<close> and a negative offset is \<open>0\<close>.\<close>

definition list_limit :: "query \<Rightarrow> int" where
  "list_limit q = (case parseInt (map_of q ''limit'') of None \<Rightarrow> - 1 | Some n \<Rightarrow> n)"

definition list_offset :: "query \<Rightarrow> int" where
  "list_offset q =
     (let offset = (case parseInt (map_of q ''offset'') of None \<Rightarrow> 0 | Some n \<Rightarrow> n)
      in if offset < 0 then 0 else offset)"

text \<open>
  The sort column and direction. \<open>order\<close> is read as \<open>col.dir\<close>; when it is absent, empty
  or names no column of the object, the column is the first key column if that is
  truthy, else the first column, ascending. With no key and no column,
  \<open>columns[0].COLUMN_NAME\<close> throws.
\<close>

definition requested_order :: "query \<Rightarrow> string option \<times> string" where
  "requested_order q =
     (case map_of q ''order'' of
        None \<Rightarrow> (None, ''ASC'')
      | Some s \<Rightarrow>
          if s = [] then (None, ''ASC'')
          else
            (let parts = split (CHR ''.'') s in
             (case parts of [] \<Rightarrow> None | p # _ \<Rightarrow> Some p,
              case parts of
                _ # d # _ \<Rightarrow> if d \<noteq> [] \<and> toUpperCase d = ''DESC'' then ''DESC'' else ''ASC''
              | _ \<Rightarrow> ''ASC'')))"

definition default_order :: "tableMeta \<Rightarrow> string + (string \<times> string)" where
  "default_order m =
     (if truthy (pk0 m) then Inr (pk0_name m, ''ASC'')
      else (case columns m of
              [] \<Rightarrow> Inl (typeError ''COLUMN_NAME'')
            | c # _ \<Rightarrow> Inr (COLUMN_NAME c, ''ASC'')))"

definition list_order :: "tableMeta \<Rightarrow> query \<Rightarrow> string + (string \<times> string)" where
  "list_order m q =
     (case requested_order q of
        (None, orderDir) \<Rightarrow> default_order m
      | (Some orderCol, orderDir) \<Rightarrow>
          if orderCol \<noteq> [] \<and> orderCol \<in> set (columnNames m) then Inr (orderCol, orderDir)
          else default_order m)"

definition whereSql :: "tableMeta \<Rightarrow> query \<Rightarrow> string" where
  "whereSql m q =
     (let wh = fst (list_filters q (columns m))
      in if wh = [] then [] else ''WHERE '' @ join '' AND '' wh)"

definition orderSql :: "string \<Rightarrow> string \<Rightarrow> string" where
  "orderSql orderCol orderDir = ''ORDER BY ['' @ orderCol @ ''] '' @ orderDir"

text \<open>
  Step 3: the statement and its parameters, or the error thrown before it is built.
  The three templates start alike: \<open>list_select\<close> is that common start.
\<close>

definition list_select :: "tableMeta \<Rightarrow> query \<Rightarrow> string \<Rightarrow> string \<Rightarrow> string" where
  "list_select m q orderCol orderDir =
     ''SELECT * FROM '' @ qName (schema m) (table m) @ '' '' @ whereSql m q
     @ '' '' @ orderSql orderCol orderDir"

definition list_sql :: "tableMeta \<Rightarrow> query \<Rightarrow> string + statement" where
  "list_sql m q =
     (case list_order m q of
        Inl e \<Rightarrow> Inl e
      | Inr (orderCol, orderDir) \<Rightarrow>
          (let limit = list_limit q;
               offset = list_offset q;
               filters = snd (list_filters q (columns m));
               select = list_select m q orderCol orderDir
           in if limit < 0 \<and> offset = 0 then Inr (select, filters)
              else if limit < 0 \<and> offset \<ge> 0 then
                Inr (select @ '' OFFSET @offset ROWS'',
                     filters @ [(''offset'', SqlInt, JNum offset)])
              else
                Inr (select @ '' OFFSET @offset ROWS FETCH NEXT @limit ROWS ONLY'',
                     filters @ [(''offset'', SqlInt, JNum offset), (''limit'', SqlInt, JNum limit)])))"


section \<open>The keyed handlers\<close>


text \<open>A template literal's line: the line break, the indentation, the text.\<close>

definition line :: "nat \<Rightarrow> string \<Rightarrow> string" where
  "line n s = CHR 0x0A # replicate n (CHR '' '') @ s"

text \<open>
  \<open>out = Array.isArray(r.recordsets) && r.recordsets[r.recordsets.length - 1] || r.recordset\<close>:
  the last record set of the batch (an empty one is truthy too).
\<close>

definition last_recordset :: "row list list \<Rightarrow> row list option" where
  "last_recordset rs = (if rs = [] then recordset rs else Some (last rs))"




subsection \<open>Create\<close>

text \<open>
  The loop over the columns: each column the body supplies adds its bracketed name, its
  placeholder and one bound parameter.
\<close>

fun insert_columns :: "jsobject \<Rightarrow> column list \<Rightarrow> string list \<times> string list \<times> param list" where
  "insert_columns b [] = ([], [], [])"
| "insert_columns b (col # cols) =
     (case read_property b (COLUMN_NAME col) of
        None \<Rightarrow> insert_columns b cols
      | Some v \<Rightarrow>
          (case insert_columns b cols of
             (cs, vs, ps) \<Rightarrow>
               ((''['' @ COLUMN_NAME col @ '']'') # cs,
                (''@'' @ COLUMN_NAME col) # vs,
                (COLUMN_NAME col, mapSqlTypeToMssqlType col, v) # ps)))"

text \<open>
  The branch a mutation takes. The trigger-aware handlers test \<open>tableMeta.hasTriggers\<close>
  and, for an insert, \<open>tableMeta.identity\<close> and then whether the body has a property
  named as the first key column, in that order.
\<close>

datatype strategy = Direct | IdentityReselect | KeyReselect | StagingTable

text \<open>\<open>tableMeta.identity\<close> interpolated in a template.\<close>

definition identity_name :: "tableMeta \<Rightarrow> string" where
  "identity_name m = (case identity m of None \<Rightarrow> ''null'' | Some i \<Rightarrow> i)"

definition body_supplies_key :: "tableMeta \<Rightarrow> jsobject \<Rightarrow> bool" where
  "body_supplies_key m b = (read_property b (pk0_name m) \<noteq> None)"

definition insert_strategy :: "tableMeta \<Rightarrow> jsobject \<Rightarrow> strategy" where
  "insert_strategy m b =
     (if hasTriggers m then
        (if truthy (identity m) then IdentityReselect
         else if body_supplies_key m b then KeyReselect
         else StagingTable)
      else Direct)"



text \<open>The select list of the staging table: the identity column as an expression.\<close>

definition outSelect :: "tableMeta \<Rightarrow> string" where
  "outSelect m =
     join '', ''
       (map (\<lambda>c. if Some (COLUMN_NAME c) = identity m
                  then ''t.['' @ COLUMN_NAME c @ ''] + 0 AS ['' @ COLUMN_NAME c @ '']''
                  else ''t.['' @ COLUMN_NAME c @ '']'')
            (columns m))"

definition staging_prologue :: "nat \<Rightarrow> tableMeta \<Rightarrow> string" where
  "staging_prologue n m =
     line n ''SET NOCOUNT ON;''
     @ line n (''IF OBJECT_ID('' @ [CHR 39] @ ''tempdb..#out'' @ [CHR 39]
               @ '') IS NOT NULL DROP TABLE #out;'')
     @ line n (''SELECT TOP 0 '' @ outSelect m @ '' INTO #out FROM ''
               @ qName (schema m) (table m) @ '' AS t WHERE 1 = 0;'')
     @ line 0 []"

definition staging_epilogue :: "nat \<Rightarrow> string" where
  "staging_epilogue n =
     line 0 [] @ line n ''SELECT * FROM #out;'' @ line n ''DROP TABLE #out;'' @ line (n - 2) []"

definition insert_sql :: "tableMeta \<Rightarrow> jsobject \<Rightarrow> string" where
  "insert_sql m b =
     (let q = qName (schema m) (table m);
          cols = join '','' (fst (insert_columns b (columns m)));
          vals = join '','' (fst (snd (insert_columns b (columns m))))
      in case insert_strategy m b of
           IdentityReselect \<Rightarrow>
             line 14 ''SET NOCOUNT ON;''
             @ line 14 (''INSERT INTO '' @ q @ '' ('' @ cols @ '')'')
             @ line 14 (''VALUES ('' @ vals @ '');'')
             @ line 14 ''DECLARE @id numeric(38,0) = SCOPE_IDENTITY();''
             @ line 14 (''SELECT * FROM '' @ q @ '' WHERE ['' @ identity_name m @ ''] = @id;'')
             @ line 12 []
         | KeyReselect \<Rightarrow>
             line 14 ''SET NOCOUNT ON;''
             @ line 14 (''INSERT INTO '' @ q @ '' ('' @ cols @ '')'')
             @ line 14 (''VALUES ('' @ vals @ '');'')
             @ line 14 (''SELECT * FROM '' @ q @ '' WHERE '' @ predicate (pk0_name m) @ '';'')
             @ line 12 []
         | StagingTable \<Rightarrow>
             staging_prologue 14 m
             @ line 14 (''INSERT INTO '' @ q @ '' ('' @ cols @ '')'')
             @ line 14 ''OUTPUT inserted.* INTO #out''
             @ line 14 (''VALUES ('' @ vals @ '');'')
             @ staging_epilogue 14
         | Direct \<Rightarrow>
             ''INSERT INTO '' @ q @ '' ('' @ cols @ '') OUTPUT inserted.* VALUES ('' @ vals @ '')'')"

text \<open>\<open>out && out[0] || {}\<close>: the first row of \<open>out\<close>, or the empty object.\<close>

definition first_row_or_empty :: "row list option \<Rightarrow> row" where
  "first_row_or_empty out = (case out of None \<Rightarrow> [] | Some [] \<Rightarrow> [] | Some (r # _) \<Rightarrow> r)"

definition create_handler :: "driver \<Rightarrow> tableMeta \<Rightarrow> jsobject \<Rightarrow> outcome" where
  "create_handler db m b =
     (let ps = snd (snd (insert_columns b (columns m))); sqlText = insert_sql m b in
      case db sqlText ps of
        Inl e \<Rightarrow> (Reply 500 (Err e), [(sqlText, ps)])
      | Inr rs \<Rightarrow> (Reply 201 (Row (first_row_or_empty (last_recordset rs))), [(sqlText, ps)]))"

subsection \<open>Update\<close>






subsection \<open>Delete\<close>



subsection \<open>The handlers of \<open>src/generator.js\<close>\<close>

text \<open>
  \<open>src/generator.js\<close> has the same list and get-by-key handlers and the same loops; its
  create, update and delete handlers always send the single statement with the
  \<open>OUTPUT\<close> clause and read \<open>result.recordset\<close>.
\<close>

definition plain_insert_sql :: "tableMeta \<Rightarrow> jsobject \<Rightarrow> string" where
  "plain_insert_sql m b =
     ''INSERT INTO '' @ qName (schema m) (table m)
     @ '' ('' @ join '','' (fst (insert_columns b (columns m)))
     @ '') OUTPUT inserted.* VALUES ('' @ join '','' (fst (snd (insert_columns b (columns m)))) @ '')''"






section \<open>Route registration\<close>

datatype http_method = GET | POST | PUT | DELETE

text \<open>
  A registered handler is a closure over the object's metadata and, for the keyed
  routes, over \<open>pk\<close>: here the data it closes over.
\<close>

datatype handler = ListRows | GetByKey string | Create | Update string | Delete string

record route =
  r_method :: http_method
  r_path :: string
  r_handler :: handler
  r_meta :: tableMeta

text \<open>
  \<open>registerRoutes(app, tableMeta, endpoint)\<close>: the list route always; the keyed and
  write routes under \<open>if (!isView && pk)\<close>. The routes are the same in both generators.
\<close>

definition registerRoutes :: "route list \<Rightarrow> tableMeta \<Rightarrow> string \<Rightarrow> route list" where
  "registerRoutes app m endpoint =
     (let base = ''/'' @ endpoint @ ''/'' @ table m in
      app @ [\<lparr>r_method = GET, r_path = base, r_handler = ListRows, r_meta = m\<rparr>]
      @ (if \<not> isView m \<and> truthy (pk0 m) then
           (let k = pk0_name m; keyed = base @ ''/:'' @ k in
            [\<lparr>r_method = GET, r_path = keyed, r_handler = GetByKey k, r_meta = m\<rparr>,
             \<lparr>r_method = POST, r_path = base, r_handler = Create, r_meta = m\<rparr>,
             \<lparr>r_method = PUT, r_path = keyed, r_handler = Update k, r_meta = m\<rparr>,
             \<lparr>r_method = DELETE, r_path = keyed, r_handler = Delete k, r_meta = m\<rparr>])
         else []))"

text \<open>What a route's handler reads of a request.\<close>

record request =
  req_query :: query
  req_key :: string
  req_body :: jsobject



section \<open>Discovery\<close>

text \<open>
  The connection target's entry of the configuration, as far as discovery reads it.
\<close>

record endpointConfig =
  cfg_endpoint :: "string option"
  cfg_filter :: "string option"

text \<open>
  \<open>filter.replace(/^\^/, '').replace(/\$/, '') + '%'\<close>, with \<open>filter\<close> defaulting to \<open>%\<close>
  when it is absent or empty. A \<open>replace\<close> with a pattern that has no \<open>g\<close> flag replaces
  the first match only: the first pattern matches a \<open>^\<close> at the start, the second the
  first \<open>$\<close> wherever it is.
\<close>

definition strip_leading_caret :: "string \<Rightarrow> string" where
  "strip_leading_caret s = (case s of [] \<Rightarrow> [] | c # cs \<Rightarrow> if c = CHR ''^'' then cs else c # cs)"

fun remove_first_dollar :: "string \<Rightarrow> string" where
  "remove_first_dollar [] = []"
| "remove_first_dollar (c # cs) = (if c = CHR ''$'' then cs else c # remove_first_dollar cs)"

definition sqlLike :: "endpointConfig \<Rightarrow> string" where
  "sqlLike c =
     (let filter = (case cfg_filter c of None \<Rightarrow> ''%'' | Some f \<Rightarrow> if f = [] then ''%'' else f)
      in remove_first_dollar (strip_leading_caret filter) @ ''%'')"

definition endpoint_of :: "endpointConfig \<Rightarrow> string" where
  "endpoint_of c = (case cfg_endpoint c of None \<Rightarrow> ''api'' | Some e \<Rightarrow> if e = [] then ''api'' else e)"

text \<open>
  The catalog is a collaborator: what each catalog query of the inspector returns on
  the connection, or the message of its failure. \<open>trigger_count\<close> is
  \<open>recordset[0]?.cnt\<close> and \<open>identity_column\<close> is \<open>recordset[0]?.COLUMN_NAME\<close>.
\<close>

record object_row =
  TABLE_SCHEMA :: string
  TABLE_NAME :: string
  TABLE_TYPE :: string

record catalog =
  tables_like :: "string \<Rightarrow> string + object_row list"
  columns_of :: "string \<Rightarrow> string \<Rightarrow> string + column list"
  key_columns_of :: "string \<Rightarrow> string \<Rightarrow> string + string list"
  trigger_count :: "string \<Rightarrow> string \<Rightarrow> string + int option"
  identity_column :: "string \<Rightarrow> string \<Rightarrow> string + string option"

definition discoverObjects :: "catalog \<Rightarrow> string \<Rightarrow> string + object_row list" where
  "discoverObjects cat filterSqlLike = tables_like cat filterSqlLike"

definition getColumns :: "catalog \<Rightarrow> string \<Rightarrow> string \<Rightarrow> string + column list" where
  "getColumns cat s t = columns_of cat s t"

definition getPrimaryKey :: "catalog \<Rightarrow> string \<Rightarrow> string \<Rightarrow> string + string list" where
  "getPrimaryKey cat s t = key_columns_of cat s t"

definition hasEnabledTriggers :: "catalog \<Rightarrow> string \<Rightarrow> string \<Rightarrow> string + bool" where
  "hasEnabledTriggers cat s t =
     (case trigger_count cat s t of
        Inl e \<Rightarrow> Inl e
      | Inr cnt \<Rightarrow> Inr ((case cnt of None \<Rightarrow> 0 | Some n \<Rightarrow> n) > 0))"

definition getIdentityColumn :: "catalog \<Rightarrow> string \<Rightarrow> string \<Rightarrow> string + string option" where
  "getIdentityColumn cat s t =
     (case identity_column cat s t of
        Inl e \<Rightarrow> Inl e
      | Inr c \<Rightarrow> Inr (if truthy c then c else None))"

text \<open>
  The metadata of one discovered object, query by query as the loop of
  \<open>setupDynamicRoutes\<close> awaits them; a failing query ends the discovery. A view's key
  is not looked up.
\<close>

definition discover_meta :: "catalog \<Rightarrow> object_row \<Rightarrow> string + tableMeta" where
  "discover_meta cat t =
     (let s = TABLE_SCHEMA t; n = TABLE_NAME t; v = (TABLE_TYPE t = ''VIEW'') in
      case getColumns cat s n of
        Inl e \<Rightarrow> Inl e
      | Inr cols \<Rightarrow>
          (case (if v then Inr [] else getPrimaryKey cat s n) of
             Inl e \<Rightarrow> Inl e
           | Inr key \<Rightarrow>
               (case hasEnabledTriggers cat s n of
                  Inl e \<Rightarrow> Inl e
                | Inr trig \<Rightarrow>
                    (case getIdentityColumn cat s n of
                       Inl e \<Rightarrow> Inl e
                     | Inr ident \<Rightarrow>
                         Inr \<lparr>schema = s, table = n, columns = cols, pk = key, isView = v,
                              hasTriggers = trig, identity = ident\<rparr>))))"

text \<open>
  \<open>src/generator.js\<close> asks for the columns and the key only; its metadata has no
  \<open>hasTriggers\<close> and no \<open>identity\<close> (undefined, so falsy).
\<close>

definition plain_discover_meta :: "catalog \<Rightarrow> object_row \<Rightarrow> string + tableMeta" where
  "plain_discover_meta cat t =
     (let s = TABLE_SCHEMA t; n = TABLE_NAME t; v = (TABLE_TYPE t = ''VIEW'') in
      case getColumns cat s n of
        Inl e \<Rightarrow> Inl e
      | Inr cols \<Rightarrow>
          (case (if v then Inr [] else getPrimaryKey cat s n) of
             Inl e \<Rightarrow> Inl e
           | Inr key \<Rightarrow>
               Inr \<lparr>schema = s, table = n, columns = cols, pk = key, isView = v,
                    hasTriggers = False, identity = None\<rparr>))"

text \<open>
  Objects keep their properties in insertion order; assigning an existing property
  replaces its value in place.
\<close>

fun obj_set :: "string \<Rightarrow> 'a \<Rightarrow> (string \<times> 'a) list \<Rightarrow> (string \<times> 'a) list" where
  "obj_set k v [] = [(k, v)]"
| "obj_set k v ((k', v') # kvs) = (if k' = k then (k, v) # kvs else (k', v') # obj_set k v kvs)"

text \<open>\<open>{ ...a, ...b }\<close>.\<close>

definition obj_merge :: "(string \<times> 'a) list \<Rightarrow> (string \<times> 'a) list \<Rightarrow> (string \<times> 'a) list" where
  "obj_merge a b = fold (\<lambda>(k, v). obj_set k v) b a"

text \<open>The document schema of one object, with the two capability hints.\<close>

record schema_object =
  properties :: "(string \<times> openapi_type) list"
  required :: "string list"
  x_msabon_isView :: bool
  x_msabon_hasPk :: bool

definition schema_of :: "tableMeta \<Rightarrow> schema_object" where
  "schema_of m =
     \<lparr>properties = fold (\<lambda>c. obj_set (COLUMN_NAME c) (toOpenApiType c)) (columns m) [],
      required = map COLUMN_NAME (filter (\<lambda>c. IS_NULLABLE c = ''NO'') (columns m)),
      x_msabon_isView = isView m,
      x_msabon_hasPk = (pk m \<noteq> [])\<rparr>"

text \<open>\<open>`${endpointConfig.endpoint}_${table}`\<close>: the configured name, not the defaulted one.\<close>

definition schema_name :: "endpointConfig \<Rightarrow> string \<Rightarrow> string" where
  "schema_name c t = (case cfg_endpoint c of None \<Rightarrow> ''undefined'' | Some e \<Rightarrow> e) @ ''_'' @ t"

text \<open>
  The loop of \<open>setupDynamicRoutes\<close> over the discovered objects, for a given way
  \<open>inspect\<close> of reading one object's metadata. It returns the application with the
  routes registered so far and either the failure or the schemas.
\<close>

fun setup_objects ::
  "(object_row \<Rightarrow> string + tableMeta) \<Rightarrow> endpointConfig \<Rightarrow> object_row list \<Rightarrow> route list
   \<Rightarrow> (string \<times> schema_object) list \<Rightarrow> route list \<times> (string + (string \<times> schema_object) list)" where
  "setup_objects inspect c [] app acc = (app, Inr acc)"
| "setup_objects inspect c (t # ts) app acc =
     (case inspect t of
        Inl e \<Rightarrow> (app, Inl e)
      | Inr m \<Rightarrow>
          setup_objects inspect c ts (registerRoutes app m (endpoint_of c))
            (obj_set (schema_name c (table m)) (schema_of m) acc))"

definition setup_with ::
  "(catalog \<Rightarrow> object_row \<Rightarrow> string + tableMeta) \<Rightarrow> route list \<Rightarrow> catalog \<Rightarrow> endpointConfig
   \<Rightarrow> route list \<times> (string + (string \<times> schema_object) list)" where
  "setup_with inspect app cat c =
     (case discoverObjects cat (sqlLike c) of
        Inl e \<Rightarrow> (app, Inl e)
      | Inr objects \<Rightarrow> setup_objects (inspect cat) c objects app [])"

definition setupDynamicRoutes ::
  "route list \<Rightarrow> catalog \<Rightarrow> endpointConfig
   \<Rightarrow> route list \<times> (string + (string \<times> schema_object) list)" where
  "setupDynamicRoutes = setup_with discover_meta"

definition plain_setupDynamicRoutes ::
  "route list \<Rightarrow> catalog \<Rightarrow> endpointConfig
   \<Rightarrow> route list \<times> (string + (string \<times> schema_object) list)" where
  "plain_setupDynamicRoutes = setup_with plain_discover_meta"

section \<open>The server: connection, retry and the document\<close>

text \<open>
  One operation of a path item: its method, tag and summary (the constant parameter and
  response descriptors are left out).
\<close>

type_synonym operation = "http_method \<times> string \<times> string"

text \<open>
  The process state: the registered routes, \<open>components.schemas\<close> and \<open>openApi.paths\<close>.
  \<open>/swagger.json\<close> serves the last two as they are.
\<close>

record server =
  app :: "route list"
  schemas :: "(string \<times> schema_object) list"
  paths :: "(string \<times> operation list) list"

text \<open>
  The body of the loop of \<open>buildPathsFromComponents\<close> for one schema name: the list
  path, and the \<open>{id}\<close> path when the schema has a key.
\<close>

definition add_paths ::
  "string \<times> schema_object \<Rightarrow> (string \<times> operation list) list \<Rightarrow> (string \<times> operation list) list" where
  "add_paths entry ps =
     (let name = fst entry; sch = snd entry;
          parts = split (CHR ''_'') name;
          endpoint = (case parts of [] \<Rightarrow> ''undefined'' | e # _ \<Rightarrow> e);
          tbl = join ''_'' (tl parts);
          base = ''/'' @ endpoint @ ''/'' @ tbl;
          tag = (if x_msabon_isView sch then ''Views'' else ''Tables'');
          listed = obj_set base
            ([(GET, tag, ''List '' @ tbl)]
             @ (if \<not> x_msabon_isView sch \<and> x_msabon_hasPk sch
                then [(POST, tag, ''Create '' @ tbl)] else [])) ps
      in if x_msabon_hasPk sch then
           obj_set (base @ ''/{id}'')
             ([(GET, tag, ''Get '' @ tbl @ '' by id'')]
              @ (if \<not> x_msabon_isView sch
                 then [(PUT, tag, ''Update '' @ tbl), (DELETE, tag, ''Delete '' @ tbl)] else []))
             listed
         else listed)"

definition buildPathsFromComponents :: "server \<Rightarrow> server" where
  "buildPathsFromComponents st = st\<lparr>paths := fold add_paths (schemas st) []\<rparr>"

text \<open>
  What one connection attempt meets: the connect fails with a message, or it succeeds
  and the catalog answers as given.
\<close>

datatype attempt = ConnectFails string | Connects catalog

text \<open>
  \<open>doAttempt\<close>: on success the schemas are merged into \<open>components.schemas\<close>; on a
  failure of the connect or of the discovery the \<open>catch\<close> schedules the next attempt
  (the flag), keeping the routes registered before the failure. \<open>setupRoutes\<close> is the
  \<open>setupDynamicRoutes\<close> of the generator in use.
\<close>

definition doAttempt ::
  "(route list \<Rightarrow> catalog \<Rightarrow> endpointConfig
     \<Rightarrow> route list \<times> (string + (string \<times> schema_object) list))
   \<Rightarrow> endpointConfig \<Rightarrow> server \<Rightarrow> attempt \<Rightarrow> server \<times> bool" where
  "doAttempt setupRoutes c st a =
     (case a of
        ConnectFails e \<Rightarrow> (st, True)
      | Connects cat \<Rightarrow>
          (case setupRoutes (app st) cat c of
             (app', Inl e) \<Rightarrow> (st\<lparr>app := app'\<rparr>, True)
           | (app', Inr s) \<Rightarrow> (st\<lparr>app := app', schemas := obj_merge (schemas st) s\<rparr>, False)))"

text \<open>
  The retries: each timer callback calls \<open>connectAndSetupWithRetry\<close> again and drops the
  promise it returns. The list holds what the successive attempts meet; the retries
  stop at the first success.
\<close>

fun retries ::
  "(route list \<Rightarrow> catalog \<Rightarrow> endpointConfig
     \<Rightarrow> route list \<times> (string + (string \<times> schema_object) list))
   \<Rightarrow> endpointConfig \<Rightarrow> server \<Rightarrow> attempt list \<Rightarrow> server" where
  "retries setupRoutes c st [] = st"
| "retries setupRoutes c st (a # as) =
     (case doAttempt setupRoutes c st a of
        (st', again) \<Rightarrow> if again then retries setupRoutes c st' as else st')"

text \<open>
  One connection as \<open>start\<close> drives it:
  \<open>connectAndSetupWithRetry(app, components, c).then(() => buildPathsFromComponents())\<close>.
  The promise settles when the first attempt is over, so the \<open>then\<close> callback runs once,
  after the first attempt and before any retry.
\<close>

definition connectAndSetupWithRetry ::
  "(route list \<Rightarrow> catalog \<Rightarrow> endpointConfig
     \<Rightarrow> route list \<times> (string + (string \<times> schema_object) list))
   \<Rightarrow> endpointConfig \<Rightarrow> server \<Rightarrow> attempt list \<Rightarrow> server" where
  "connectAndSetupWithRetry setupRoutes c st as =
     (case as of
        [] \<Rightarrow> st
      | a # rest \<Rightarrow>
          (case doAttempt setupRoutes c st a of
             (st', again) \<Rightarrow>
               if again then retries setupRoutes c (buildPathsFromComponents st') rest
               else buildPathsFromComponents st'))"

text \<open>The state when \<open>start\<close> has run its initial \<open>buildPathsFromComponents()\<close>.\<close>

definition started :: server where
  "started = buildPathsFromComponents \<lparr>app = [], schemas = [], paths = []\<rparr>"

section \<open>Example objects\<close>

text \<open>
  Columns.
\<close>

definition col_Id :: column where
  "col_Id = \<lparr>COLUMN_NAME = ''Id'', DATA_TYPE = ''int'', IS_NULLABLE = ''NO'',
     CHARACTER_MAXIMUM_LENGTH = None\<rparr>"

definition col_Name :: column where
  "col_Name = \<lparr>COLUMN_NAME = ''Name'', DATA_TYPE = ''nvarchar'', IS_NULLABLE = ''YES'',
     CHARACTER_MAXIMUM_LENGTH = Some 100\<rparr>"

definition col_Total :: column where
  "col_Total = \<lparr>COLUMN_NAME = ''Total'', DATA_TYPE = ''bigint'', IS_NULLABLE = ''NO'',
     CHARACTER_MAXIMUM_LENGTH = None\<rparr>"


text \<open>
  Objects: a view with a trigger count and an identity column in the catalog; a table with a
  trigger and no identity column; one with a trigger and an identity column; one with a
  column named \<open>limit\<close>.
\<close>

definition meta_ActiveUsers :: tableMeta where
  "meta_ActiveUsers =
     \<lparr>schema = ''dbo'', table = ''ActiveUsers'', columns = [col_Id, col_Name], pk = [],
      isView = True, hasTriggers = True, identity = Some ''Id''\<rparr>"

definition meta_Users :: tableMeta where
  "meta_Users =
     \<lparr>schema = ''dbo'', table = ''Users'', columns = [col_Id, col_Name], pk = [''Id''],
      isView = False, hasTriggers = True, identity = None\<rparr>"

definition meta_Orders :: tableMeta where
  "meta_Orders =
     \<lparr>schema = ''dbo'', table = ''Orders'', columns = [col_Id, col_Name], pk = [''Id''],
      isView = False, hasTriggers = True, identity = Some ''Id''\<rparr>"


text \<open>
  Connection targets and catalogs.
\<close>

definition cfg_api :: endpointConfig where
  "cfg_api = \<lparr>cfg_endpoint = Some ''api'', cfg_filter = Some ''^A''\<rparr>"

definition cfg_A_B :: endpointConfig where
  "cfg_A_B = \<lparr>cfg_endpoint = Some ''api'', cfg_filter = Some ''^A$B$''\<rparr>"

definition row_ActiveUsers :: object_row where
  "row_ActiveUsers = \<lparr>TABLE_SCHEMA = ''dbo'', TABLE_NAME = ''ActiveUsers'', TABLE_TYPE = ''VIEW''\<rparr>"

definition cat_view :: catalog where
  "cat_view =
     \<lparr>tables_like = (\<lambda>f. Inr [row_ActiveUsers]),
      columns_of = (\<lambda>s t. Inr [col_Id, col_Name]),
      key_columns_of = (\<lambda>s t. Inr [''Id'']),
      trigger_count = (\<lambda>s t. Inr (Some 2)),
      identity_column = (\<lambda>s t. Inr (Some ''Id''))\<rparr>"

definition row_Users :: object_row where
  "row_Users = \<lparr>TABLE_SCHEMA = ''dbo'', TABLE_NAME = ''Users'', TABLE_TYPE = ''BASE TABLE''\<rparr>"

definition cat_users :: catalog where
  "cat_users =
     \<lparr>tables_like = (\<lambda>f. Inr [row_Users]),
      columns_of = (\<lambda>s t. Inr [col_Id, col_Name]),
      key_columns_of = (\<lambda>s t. Inr [''Id'']),
      trigger_count = (\<lambda>s t. Inr (Some 1)),
      identity_column = (\<lambda>s t. Inr None)\<rparr>"

text \<open>
  Registered routes.
\<close>

definition route_ActiveUsers :: route where
  "route_ActiveUsers =
     \<lparr>r_method = GET, r_path = ''/api/ActiveUsers'', r_handler = ListRows,
      r_meta = meta_ActiveUsers\<rparr>"

definition route_create_Users :: route where
  "route_create_Users =
     \<lparr>r_method = POST, r_path = ''/api/Users'', r_handler = Create, r_meta = meta_Users\<rparr>"

text \<open>
  Request bodies, queries and requests. \<open>body_nick\<close> has the key and a property that is no
  column of the object.
\<close>

definition body_update :: jsobject where
  "body_update = [(''Id'', JNum 99), (''Name'', JStr ''Ann'')]"

definition body_insert :: jsobject where
  "body_insert = [(''Name'', JStr ''Ann'')]"

definition body_key_only :: jsobject where
  "body_key_only = [(''Id'', JNum 1)]"



definition query_unknown :: query where
  "query_unknown = [(''order'', ''Nick.desc'')]"

definition request_insert :: request where
  "request_insert = \<lparr>req_query = [], req_key = [], req_body = body_update\<rparr>"

text \<open>
  Drivers: \<open>echo_rows\<close> answers every statement with one record set, the bound parameters
  as a row; \<open>no_rows\<close> answers with one record set that has no row.
\<close>

definition echo_rows :: driver where
  "echo_rows = (\<lambda>sqlText ps. Inr [[map (\<lambda>p. (fst p, snd (snd p))) ps]])"

definition no_rows :: driver where
  "no_rows = (\<lambda>sqlText ps. Inr [[]])"


definition text_all_Users :: string where
  "text_all_Users = ''SELECT * FROM [dbo].[Users]  ORDER BY [Id] ASC''"

text \<open>
  One target whose connect succeeds at once, and the same target when the first connect
  fails and the retry succeeds.
\<close>

definition after_first_try :: server where
  "after_first_try =
     connectAndSetupWithRetry plain_setupDynamicRoutes cfg_api started [Connects cat_users]"

definition after_retry :: server where
  "after_retry =
     connectAndSetupWithRetry plain_setupDynamicRoutes cfg_api started
       [ConnectFails ''ECONNREFUSED'', Connects cat_users]"












definition query_huge :: query where
  "query_huge = [(''limit'', replicate 400 (CHR ''9''))]"

section \<open>Properties of the type mapper\<close>

lemma sql_bigint_unreachable: "mapSqlTypeToMssqlType col \<noteq> SqlBigInt"
  by (auto simp: mapSqlTypeToMssqlType_def Let_def split: option.splits)

lemma int64_unreachable: "oa_format (toOpenApiType col) \<noteq> Some ''int64''"
  by (auto simp: toOpenApiType_def Let_def)

text \<open>
  C4. A column whose base type is \<open>bigint\<close>, in either case, is bound as a 32-bit
  integer and described as \<open>integer\<close> with no format: \<open>bigint\<close> contains \<open>int\<close> and that
  test comes first, so the \<open>bigint\<close> branch of neither function is ever reached (the two
  lemmas above).
\<close>

theorem bigint_maps_to_32_bit:
  "mapSqlTypeToMssqlType col_Total = SqlInt
   \<and> toOpenApiType col_Total = \<lparr>oa_type = ''integer'', oa_format = None\<rparr>
   \<and> mapSqlTypeToMssqlType (col_Total\<lparr>DATA_TYPE := ''BIGINT''\<rparr>) = SqlInt
   \<and> toOpenApiType (col_Total\<lparr>DATA_TYPE := ''BIGINT''\<rparr>)
       = \<lparr>oa_type = ''integer'', oa_format = None\<rparr>"
  by (simp add: col_Total_def mapSqlTypeToMssqlType_def toOpenApiType_def toLowerCase_def
      lower_char_def)

section \<open>Properties of the filter pattern\<close>

lemma remove_first_dollar_none: "CHR ''$'' \<notin> set s \<Longrightarrow> remove_first_dollar s = s"
  by (induction s) auto

lemma remove_first_dollar_trailing:
  "CHR ''$'' \<notin> set s \<Longrightarrow> remove_first_dollar (s @ ''$'') = s"
  by (induction s) auto

text \<open>
  A filter whose only \<open>$\<close> is the trailing anchor gives the pattern the documentation
  describes.
\<close>

lemma sqlLike_anchored:
  "CHR ''$'' \<notin> set s \<Longrightarrow> s \<noteq> []
   \<Longrightarrow> sqlLike \<lparr>cfg_endpoint = e, cfg_filter = Some (''^'' @ s @ ''$'')\<rparr> = s @ ''%''
     \<and> sqlLike \<lparr>cfg_endpoint = e, cfg_filter = Some (''^'' @ s)\<rparr> = s @ ''%''"
  by (simp add: sqlLike_def truthy_def strip_leading_caret_def remove_first_dollar_none
      remove_first_dollar_trailing)

text \<open>
  C6. The pattern for the filter \<open>^A$B$\<close> is \<open>AB$%\<close>, and for \<open>A$B\<close> it is \<open>AB%\<close>: the
  second \<open>replace\<close> removes the first \<open>$\<close> of the filter wherever it stands, so an inner
  \<open>$\<close> is dropped and, behind one, the trailing anchor stays.
\<close>

theorem sqlLike_strips_inner_dollar:
  "sqlLike cfg_A_B = ''AB$%''
   \<and> sqlLike (cfg_A_B\<lparr>cfg_filter := Some ''A$B''\<rparr>) = ''AB%''"
  by (simp add: cfg_A_B_def sqlLike_def truthy_def strip_leading_caret_def)

section \<open>Views are read-only\<close>

lemma registerRoutes_view:
  "isView m \<Longrightarrow> registerRoutes rts m e
     = rts @ [\<lparr>r_method = GET, r_path = ''/'' @ e @ ''/'' @ table m, r_handler = ListRows, r_meta = m\<rparr>]"
  by (simp add: registerRoutes_def)

lemma registerRoutes_view_inv:
  assumes "\<forall>r\<in>set rts. isView (r_meta r) \<longrightarrow> r_method r = GET \<and> r_handler r = ListRows"
  shows "\<forall>r\<in>set (registerRoutes rts m e). isView (r_meta r) \<longrightarrow> r_method r = GET \<and> r_handler r = ListRows"
  using assms by (auto simp: registerRoutes_def Let_def)

lemma setup_objects_view_inv:
  assumes "\<forall>r\<in>set rts. isView (r_meta r) \<longrightarrow> r_method r = GET \<and> r_handler r = ListRows"
  shows "\<forall>r\<in>set (fst (setup_objects inspect c ts rts acc)).
           isView (r_meta r) \<longrightarrow> r_method r = GET \<and> r_handler r = ListRows"
  using assms
proof (induction ts arbitrary: rts acc)
  case Nil
  then show ?case by simp
next
  case (Cons t ts)
  show ?case
  proof (cases "inspect t")
    case (Inl e)
    with Cons.prems show ?thesis by simp
  next
    case (Inr m)
    from Cons.prems have "\<forall>r\<in>set (registerRoutes rts m (endpoint_of c)).
        isView (r_meta r) \<longrightarrow> r_method r = GET \<and> r_handler r = ListRows"
      by (rule registerRoutes_view_inv)
    from Cons.IH[OF this] Inr show ?thesis by simp
  qed
qed

lemma setup_with_view_inv:
  "r \<in> set (fst (setup_with inspect [] cat c)) \<Longrightarrow> isView (r_meta r)
   \<Longrightarrow> r_method r = GET \<and> r_handler r = ListRows"
proof (cases "discoverObjects cat (sqlLike c)")
  case (Inl e)
  assume "r \<in> set (fst (setup_with inspect [] cat c))"
  with Inl show ?thesis by (simp add: setup_with_def)
next
  case (Inr objects)
  assume r: "r \<in> set (fst (setup_with inspect [] cat c))" and v: "isView (r_meta r)"
  have "\<forall>r\<in>set (fst (setup_objects (inspect cat) c objects [] [])).
           isView (r_meta r) \<longrightarrow> r_method r = GET \<and> r_handler r = ListRows"
    by (rule setup_objects_view_inv) simp
  with r v Inr show ?thesis by (simp add: setup_with_def)
qed

lemma discover_meta_isView:
  "discover_meta cat t = Inr m \<Longrightarrow> isView m = (TABLE_TYPE t = ''VIEW'') \<and> (isView m \<longrightarrow> pk m = [])"
  by (auto simp: discover_meta_def Let_def split: sum.splits if_splits)

text \<open>
  C5. Whatever the catalog answers about keys, triggers and identity columns, a route
  that either generator registers for a view is the list route: its method is \<open>GET\<close> and
  no insert, update or delete handler is attached to it.
\<close>

theorem view_routes_read_only:
  assumes "isView (r_meta r)"
    and "r \<in> set (fst (setupDynamicRoutes [] cat c))
         \<or> r \<in> set (fst (plain_setupDynamicRoutes [] cat c))"
  shows "r_method r = GET \<and> r_handler r = ListRows"
  using assms setup_with_view_inv[of r discover_meta cat c]
    setup_with_view_inv[of r plain_discover_meta cat c]
  by (auto simp: setupDynamicRoutes_def plain_setupDynamicRoutes_def)

lemma setup_view_example:
  "fst (setupDynamicRoutes [] cat_view cfg_api) = [route_ActiveUsers]"
  by (simp add: setupDynamicRoutes_def setup_with_def discoverObjects_def cat_view_def
      discover_meta_def getColumns_def hasEnabledTriggers_def getIdentityColumn_def truthy_def
      row_ActiveUsers_def registerRoutes_def route_ActiveUsers_def meta_ActiveUsers_def
      endpoint_of_def cfg_api_def)

theorem view_routes_read_only_witness:
  "isView (r_meta route_ActiveUsers)
   \<and> route_ActiveUsers \<in> set (fst (setupDynamicRoutes [] cat_view cfg_api))
   \<and> r_method route_ActiveUsers = GET \<and> r_handler route_ActiveUsers = ListRows"
proof -
  have v: "isView (r_meta route_ActiveUsers)"
    by (simp add: route_ActiveUsers_def meta_ActiveUsers_def)
  have r: "route_ActiveUsers \<in> set (fst (setupDynamicRoutes [] cat_view cfg_api))"
    by (simp add: setup_view_example)
  from view_routes_read_only[OF v, of cat_view cfg_api] r v show ?thesis by simp
qed

section \<open>Properties of the list handler: pagination\<close>


lemma to_double_overflow: "2 ^ 1024 \<le> n \<Longrightarrow> to_double n = None"
proof -
  assume a: "2 ^ 1024 \<le> n"
  have "(2::nat) ^ 53 \<le> 2 ^ 1024" by (rule power_increasing) simp_all
  with a have "\<not> n < 2 ^ 53" by linarith
  moreover from a have "2 ^ 1024 - 2 ^ 970 \<le> n" by linarith
  ultimately show ?thesis by (simp add: to_double_def)
qed

lemma bit_length_pos: "0 < n \<Longrightarrow> bit_length n = Suc (bit_length (n div 2))"
  by (cases n) simp_all

lemma bit_length_numeral:
  "bit_length (Suc 0) = 1"
  "bit_length (numeral (Num.Bit0 k)) = Suc (bit_length (numeral k))"
  "bit_length (numeral (Num.Bit1 k)) = Suc (bit_length (numeral k))"
  by (simp_all add: bit_length_pos numeral_Bit0_div_2 numeral_Bit1_div_2 del: bit_length.simps(2))

lemma bit_length_example: "bit_length 9007199254740993 = 54"
  by (simp add: bit_length_numeral del: bit_length.simps(2))

lemma to_double_rounds: "to_double 9007199254740993 = Some 9007199254740992"
  by (simp add: to_double_def bit_length_example Let_def del: bit_length.simps(2))



text \<open>Above \<open>2^53\<close> the parsed value is the nearest double, and a run of 400 digits is infinite.\<close>

lemma parseInt_rounds: "parseInt (Some ''9007199254740993'') = Some 9007199254740992"
  by (simp add: parseInt_def is_space_def unsigned_int_def digit_val_def to_double_rounds)

lemma digits_val_nines: "digits_val acc (replicate n (CHR ''9'')) = (acc + 1) * 10 ^ n - 1"
  by (induction n arbitrary: acc) (simp_all add: digit_val_def algebra_simps)

lemma parseInt_nines:
  "0 < n \<Longrightarrow> parseInt (Some (replicate n (CHR ''9''))) = map_option int (to_double (10 ^ n - 1))"
  by (cases n)
    (simp_all add: parseInt_def is_space_def unsigned_int_def digit_val_def digits_val_nines)

lemma nines_overflow: "(2::nat) ^ 1024 \<le> 10 ^ 400 - 1"
proof -
  have "(2::nat) ^ 1024 < 2 ^ 1200" by (rule power_strict_increasing) simp_all
  also have "(2::nat) ^ 1200 = (2 ^ 3) ^ 400" by (simp only: power_mult [symmetric]) simp
  also have "\<dots> \<le> (10::nat) ^ 400" by (rule power_mono) simp_all
  finally show ?thesis by linarith
qed

lemma parseInt_infinite: "parseInt (Some (replicate 400 (CHR ''9''))) = None"
  using parseInt_nines [of 400] to_double_overflow [OF nines_overflow] by simp

text \<open>
  A limit that parses to \<open>Infinity\<close> is not finite, so the default \<open>-1\<close> is taken.
\<close>

lemma parseInt_None: "parseInt None = None"
  by (simp add: parseInt_def)

lemma list_limit_infinite: "list_limit query_huge = - 1 \<and> list_offset query_huge = 0"
  by (simp add: list_limit_def list_offset_def query_huge_def parseInt_infinite parseInt_None)











lemma list_sql_infinite_limit: "list_sql meta_Users query_huge = Inr (text_all_Users, [])"
proof -
  have o: "list_order meta_Users query_huge = Inr (''Id'', ''ASC'')"
    by (simp add: list_order_def requested_order_def query_huge_def default_order_def
        pk0_name_def truthy_def pk0_def meta_Users_def)
  have f: "list_filters query_huge (columns meta_Users) = ([], [])"
    by (simp add: query_huge_def meta_Users_def col_Id_def col_Name_def)
  have s: "list_select meta_Users query_huge ''Id'' ''ASC'' = text_all_Users"
    by (simp add: list_select_def whereSql_def f orderSql_def text_all_Users_def)
      (simp add: meta_Users_def qName_def)
  show ?thesis
    by (simp add: list_sql_def o f s list_limit_infinite)
qed


section \<open>Properties of the update handler\<close>
















section \<open>Properties of the create handler\<close>

lemma line_not_Nil: "line n s \<noteq> []"
  by (simp add: line_def)

lemma insert_sql_direct:
  "\<not> hasTriggers m \<Longrightarrow> insert_sql m b = plain_insert_sql m b"
  by (simp add: insert_sql_def insert_strategy_def plain_insert_sql_def Let_def)

lemma insert_sql_reselect_differs:
  "hasTriggers m \<Longrightarrow> insert_sql m b \<noteq> plain_insert_sql m b"
  by (cases "insert_strategy m b")
    (auto simp: insert_sql_def insert_strategy_def plain_insert_sql_def Let_def line_def
      staging_prologue_def split: if_splits)

text \<open>
  C2, as amended. For an object with an enabled trigger and an identity column the create
  handler takes the identity-reselect branch: it sends one batch, the \<open>INSERT\<close> with no
  \<open>OUTPUT\<close> clause followed by the select of the row whose identity column equals
  \<open>SCOPE_IDENTITY()\<close>, never the single statement with \<open>OUTPUT inserted.*\<close>. It answers 201
  with the first row of the last record set of the batch, with the empty object when
  that record set has no row, and 500 with the driver's message when the batch fails.
\<close>

theorem insert_with_trigger_and_identity:
  assumes "hasTriggers m" and "identity m = Some i" and "i \<noteq> []"
  shows "insert_strategy m b = IdentityReselect
       \<and> insert_sql m b =
           line 14 ''SET NOCOUNT ON;''
           @ line 14 (''INSERT INTO '' @ qName (schema m) (table m)
                      @ '' ('' @ join '','' (fst (insert_columns b (columns m))) @ '')'')
           @ line 14 (''VALUES ('' @ join '','' (fst (snd (insert_columns b (columns m)))) @ '');'')
           @ line 14 ''DECLARE @id numeric(38,0) = SCOPE_IDENTITY();''
           @ line 14 (''SELECT * FROM '' @ qName (schema m) (table m) @ '' WHERE ['' @ i @ ''] = @id;'')
           @ line 12 []
       \<and> insert_sql m b \<noteq>
           ''INSERT INTO '' @ qName (schema m) (table m)
           @ '' ('' @ join '','' (fst (insert_columns b (columns m)))
           @ '') OUTPUT inserted.* VALUES ('' @ join '','' (fst (snd (insert_columns b (columns m)))) @ '')''
       \<and> snd (create_handler db m b) = [(insert_sql m b, snd (snd (insert_columns b (columns m))))]
       \<and> (\<forall>e. db (insert_sql m b) (snd (snd (insert_columns b (columns m)))) = Inl e \<longrightarrow>
             fst (create_handler db m b) = Reply 500 (Err e))
       \<and> (\<forall>rs r rest. db (insert_sql m b) (snd (snd (insert_columns b (columns m)))) = Inr rs
             \<and> rs \<noteq> [] \<and> last rs = r # rest \<longrightarrow>
             fst (create_handler db m b) = Reply 201 (Row r))
       \<and> (\<forall>rs. db (insert_sql m b) (snd (snd (insert_columns b (columns m)))) = Inr rs
             \<and> (rs = [] \<or> last rs = []) \<longrightarrow>
             fst (create_handler db m b) = Reply 201 (Row []))"
proof -
  from assms have s: "insert_strategy m b = IdentityReselect"
    by (simp add: insert_strategy_def truthy_def)
  have t: "insert_sql m b =
           line 14 ''SET NOCOUNT ON;''
           @ line 14 (''INSERT INTO '' @ qName (schema m) (table m)
                      @ '' ('' @ join '','' (fst (insert_columns b (columns m))) @ '')'')
           @ line 14 (''VALUES ('' @ join '','' (fst (snd (insert_columns b (columns m)))) @ '');'')
           @ line 14 ''DECLARE @id numeric(38,0) = SCOPE_IDENTITY();''
           @ line 14 (''SELECT * FROM '' @ qName (schema m) (table m) @ '' WHERE ['' @ i @ ''] = @id;'')
           @ line 12 []"
    using assms by (simp add: insert_sql_def s identity_name_def Let_def)
  have d: "insert_sql m b \<noteq>
           ''INSERT INTO '' @ qName (schema m) (table m)
           @ '' ('' @ join '','' (fst (insert_columns b (columns m)))
           @ '') OUTPUT inserted.* VALUES ('' @ join '','' (fst (snd (insert_columns b (columns m)))) @ '')''"
    using insert_sql_reselect_differs[OF assms(1), of b] by (simp add: plain_insert_sql_def)
  have x: "snd (create_handler db m b) = [(insert_sql m b, snd (snd (insert_columns b (columns m))))]"
    by (simp add: create_handler_def Let_def split: sum.splits)
  have e: "fst (create_handler db m b) = Reply 500 (Err e)"
    if "db (insert_sql m b) (snd (snd (insert_columns b (columns m)))) = Inl e" for e
    using that by (simp add: create_handler_def Let_def)
  have r: "fst (create_handler db m b) = Reply 201 (Row r)"
    if "db (insert_sql m b) (snd (snd (insert_columns b (columns m)))) = Inr rs
        \<and> rs \<noteq> [] \<and> last rs = r # rest" for rs r rest
    using that by (simp add: create_handler_def Let_def last_recordset_def first_row_or_empty_def)
  have n: "fst (create_handler db m b) = Reply 201 (Row [])"
    if "db (insert_sql m b) (snd (snd (insert_columns b (columns m)))) = Inr rs
        \<and> (rs = [] \<or> last rs = [])" for rs
    using that
    by (auto simp: create_handler_def Let_def last_recordset_def first_row_or_empty_def
        recordset_def)
  from s t d x e r n show ?thesis by blast
qed

text \<open>
  C2 as stated fails when the reselect finds no row (as when \<open>SCOPE_IDENTITY()\<close> is
  \<open>NULL\<close> in the batch's scope because an \<open>INSTEAD OF\<close> trigger did the insert): the handler
  answers 201 with \<open>{}\<close>, a body with no identity value.
\<close>

theorem insert_reselect_may_return_empty_object:
  "hasTriggers meta_Orders \<and> identity meta_Orders = Some ''Id''
   \<and> insert_strategy meta_Orders body_insert = IdentityReselect
   \<and> fst (create_handler no_rows meta_Orders body_insert) = Reply 201 (Row [])"
  by (simp add: meta_Orders_def insert_strategy_def truthy_def create_handler_def no_rows_def
      last_recordset_def first_row_or_empty_def)

theorem insert_with_trigger_and_identity_witness:
  "hasTriggers meta_Orders \<and> identity meta_Orders = Some ''Id'' \<and> ''Id'' \<noteq> []
   \<and> insert_strategy meta_Orders body_insert = IdentityReselect
   \<and> snd (create_handler echo_rows meta_Orders body_insert)
       = [(insert_sql meta_Orders body_insert, [(''Name'', NVarChar (Len 100), JStr ''Ann'')])]
   \<and> fst (create_handler echo_rows meta_Orders body_insert) = Reply 201 (Row [(''Name'', JStr ''Ann'')])"
proof -
  have h: "hasTriggers meta_Orders" "identity meta_Orders = Some ''Id''" "''Id'' \<noteq> []"
    by (simp_all add: meta_Orders_def)
  have p: "snd (snd (insert_columns body_insert (columns meta_Orders)))
            = [(''Name'', NVarChar (Len 100), JStr ''Ann'')]"
    by (simp add: meta_Orders_def body_insert_def col_Id_def col_Name_def
        read_property_def object_prototype_def mapSqlTypeToMssqlType_def toLowerCase_def
        lower_char_def)
  have d: "echo_rows (insert_sql meta_Orders body_insert)
             [(''Name'', NVarChar (Len 100), JStr ''Ann'')] = Inr [[[(''Name'', JStr ''Ann'')]]]"
    by (simp add: echo_rows_def)
  from insert_with_trigger_and_identity[OF h, of body_insert echo_rows] h p d
  show ?thesis by simp
qed

section \<open>The document after a connection\<close>

lemma doAttempt_paths: "paths (fst (doAttempt setupRoutes c st a)) = paths st"
  by (cases a) (auto simp: doAttempt_def split: prod.splits sum.splits)

lemma retries_paths: "paths (retries setupRoutes c st attempts) = paths st"
proof (induction attempts arbitrary: st)
  case Nil
  then show ?case by simp
next
  case (Cons a attempts)
  obtain st' again where d: "doAttempt setupRoutes c st a = (st', again)"
    by (cases "doAttempt setupRoutes c st a")
  with doAttempt_paths[of setupRoutes c st a] have "paths st' = paths st" by simp
  with d Cons.IH[of st'] show ?case by simp
qed

text \<open>
  The paths are rebuilt once per connection, from the schemas as they are when the first
  attempt is over; no retry touches them.
\<close>

lemma rebuilt_after_first_attempt_only:
  "paths (connectAndSetupWithRetry setupRoutes c st (a # attempts))
     = fold add_paths (schemas (fst (doAttempt setupRoutes c st a))) []"
  by (cases "doAttempt setupRoutes c st a")
    (simp add: connectAndSetupWithRetry_def retries_paths buildPathsFromComponents_def)

lemma started_empty: "started = \<lparr>app = [], schemas = [], paths = []\<rparr>"
  by (simp add: started_def buildPathsFromComponents_def)

lemma plain_setup_users:
  "plain_setupDynamicRoutes [] cat_users cfg_api
     = (registerRoutes [] (meta_Users\<lparr>hasTriggers := False\<rparr>) ''api'',
        Inr [(''api_Users'', schema_of (meta_Users\<lparr>hasTriggers := False\<rparr>))])"
  by (simp add: plain_setupDynamicRoutes_def setup_with_def discoverObjects_def cat_users_def
      plain_discover_meta_def getColumns_def getPrimaryKey_def row_Users_def meta_Users_def
      endpoint_of_def cfg_api_def truthy_def schema_name_def)

lemma schema_Users_hints:
  "x_msabon_isView (schema_of (meta_Users\<lparr>hasTriggers := False\<rparr>)) = False
   \<and> x_msabon_hasPk (schema_of (meta_Users\<lparr>hasTriggers := False\<rparr>)) = True"
  by (simp add: schema_of_def meta_Users_def)

lemma split_api_Users: "split (CHR ''_'') ''api_Users'' = [''api'', ''Users'']"
  by (simp add: split_def)

text \<open>
  C3. A target whose first connect fails and whose retry succeeds: its routes are
  registered and its schema is merged into \<open>components.schemas\<close>, but \<open>openApi.paths\<close>
  stays as the rebuild after the failed first attempt left it, empty, so the document
  served afterwards shows no path of the object. When the first connect succeeds the
  same schemas give the two paths.
\<close>

theorem retry_success_leaves_paths_stale:
  "map fst (schemas after_retry) = [''api_Users'']
   \<and> map r_path (app after_retry)
       = [''/api/Users'', ''/api/Users/:Id'', ''/api/Users'', ''/api/Users/:Id'', ''/api/Users/:Id'']
   \<and> paths after_retry = []
   \<and> schemas after_first_try = schemas after_retry
   \<and> paths after_first_try
       = [(''/api/Users'', [(GET, ''Tables'', ''List Users''), (POST, ''Tables'', ''Create Users'')]),
          (''/api/Users/{id}'',
           [(GET, ''Tables'', ''Get Users by id''), (PUT, ''Tables'', ''Update Users''),
            (DELETE, ''Tables'', ''Delete Users'')])]"
proof -
  have r: "after_retry
    = \<lparr>app = registerRoutes [] (meta_Users\<lparr>hasTriggers := False\<rparr>) ''api'',
       schemas = [(''api_Users'', schema_of (meta_Users\<lparr>hasTriggers := False\<rparr>))],
       paths = []\<rparr>"
    by (simp add: after_retry_def connectAndSetupWithRetry_def doAttempt_def started_empty
        buildPathsFromComponents_def plain_setup_users obj_merge_def)
  have f: "after_first_try
    = \<lparr>app = registerRoutes [] (meta_Users\<lparr>hasTriggers := False\<rparr>) ''api'',
       schemas = [(''api_Users'', schema_of (meta_Users\<lparr>hasTriggers := False\<rparr>))],
       paths = add_paths (''api_Users'', schema_of (meta_Users\<lparr>hasTriggers := False\<rparr>)) []\<rparr>"
    by (simp add: after_first_try_def connectAndSetupWithRetry_def doAttempt_def started_empty
        buildPathsFromComponents_def plain_setup_users obj_merge_def)
  have p: "add_paths (''api_Users'', schema_of (meta_Users\<lparr>hasTriggers := False\<rparr>)) []
      = [(''/api/Users'', [(GET, ''Tables'', ''List Users''), (POST, ''Tables'', ''Create Users'')]),
          (''/api/Users/{id}'',
           [(GET, ''Tables'', ''Get Users by id''), (PUT, ''Tables'', ''Update Users''),
            (DELETE, ''Tables'', ''Delete Users'')])]"
    by (simp add: add_paths_def schema_Users_hints split_api_Users Let_def)
  have a: "map r_path (registerRoutes [] (meta_Users\<lparr>hasTriggers := False\<rparr>) ''api'')
      = [''/api/Users'', ''/api/Users/:Id'', ''/api/Users'', ''/api/Users/:Id'', ''/api/Users/:Id'']"
    by (simp add: registerRoutes_def meta_Users_def truthy_def pk0_def pk0_name_def Let_def)
  show ?thesis by (simp add: r f p a)
qed

end
